theory Spec2Isabelle
  imports Complex_Main
begin

section \<open>JavaScript values and objects\<close>

text \<open>
  Demand rows travel as JSON objects, and \<open>updateDemand\<close> handles them as \<open>any\<close>: it copies
  them with object spread and reads properties that the \<open>Demand\<close> interface does not even
  declare. An object is therefore a finite map from property names to values, a property
  that is not there reads as \<open>undefined\<close>, and the operators \<open>??\<close> and \<open>||\<close> are
  written out. Numbers are only ever copied, never computed with.
\<close>

datatype jsval = JUndefined | JNull | JStr string | JNum real

type_synonym obj = "string \<rightharpoonup> jsval"

datatype error = TypeError | HttpError

definition getProp :: "obj \<Rightarrow> string \<Rightarrow> jsval" where
  "getProp ob k = (case ob k of None \<Rightarrow> JUndefined | Some v \<Rightarrow> v)"

definition nullish :: "jsval \<Rightarrow> bool" where
  "nullish v = (v = JUndefined \<or> v = JNull)"

text \<open>\<open>a ?? b\<close>\<close>

definition nullish_or :: "jsval \<Rightarrow> jsval \<Rightarrow> jsval" where
  "nullish_or a b = (if nullish a then b else a)"

definition falsy :: "jsval \<Rightarrow> bool" where
  "falsy v = (v = JUndefined \<or> v = JNull \<or> v = JStr [] \<or> v = JNum 0)"

text \<open>\<open>a || b\<close>\<close>

definition js_or :: "jsval \<Rightarrow> jsval \<Rightarrow> jsval" where
  "js_or a b = (if falsy a then b else a)"

text \<open>\<open>Array.prototype.findIndex\<close>: the first index whose element passes, or \<open>-1\<close>.\<close>

fun findIndex :: "('a \<Rightarrow> bool) \<Rightarrow> 'a list \<Rightarrow> int" where
  "findIndex P [] = -1"
| "findIndex P (x # xs) =
     (if P x then 0 else (let r = findIndex P xs in if r < 0 then -1 else r + 1))"

text \<open>An array read \<open>xs[i]\<close>: out of range it gives \<open>undefined\<close>, here \<open>None\<close>.\<close>

definition at_index :: "'a list \<Rightarrow> int \<Rightarrow> 'a option" where
  "at_index xs i = (if 0 \<le> i \<and> i < int (length xs) then Some (xs ! nat i) else None)"

section \<open>Stage helpers of the sequential flow\<close>

datatype Role = DemandRequestor | BUHead | ITPMO | DBR

record FlowStep =
  stage :: string
  role :: "Role option"

definition STAGE_FLOW :: "FlowStep list" where
  "STAGE_FLOW =
    [\<lparr>stage = ''Intake'', role = Some DemandRequestor\<rparr>,
     \<lparr>stage = ''Screening'', role = Some BUHead\<rparr>,
     \<lparr>stage = ''Assessment'', role = Some ITPMO\<rparr>,
     \<lparr>stage = ''Authorization'', role = Some DBR\<rparr>,
     \<lparr>stage = ''Service Portfolio Entry'', role = None\<rparr>]"

definition stageIndex :: "jsval \<Rightarrow> int" where
  "stageIndex st =
     (let i = findIndex (\<lambda>s. JStr (stage s) = nullish_or st (JStr ''Intake'')) STAGE_FLOW
      in if i \<ge> 0 then i else 0)"

text \<open>
  \<open>STAGE_FLOW[stageIndex(stage)].role\<close>: reading \<open>.role\<close> of \<open>undefined\<close> would throw a
  TypeError, so the read is a branch of the model.
\<close>

definition requiredRoleForStage :: "jsval \<Rightarrow> error + Role option" where
  "requiredRoleForStage st =
     (case at_index STAGE_FLOW (stageIndex st) of
        None \<Rightarrow> Inl TypeError
      | Some s \<Rightarrow> Inr (role s))"

definition nextStageFrom :: "jsval \<Rightarrow> error + string" where
  "nextStageFrom st =
     (let i = stageIndex st
      in case at_index STAGE_FLOW (min (i + 1) (int (length STAGE_FLOW) - 1)) of
           None \<Rightarrow> Inl TypeError
         | Some s \<Rightarrow> Inr (stage s))"

section \<open>The stage table (workflow.ts)\<close>

text \<open>
  Strings are lists of 8-bit characters, read as the code units 0 to 255 of a JavaScript
  string. On that range \<open>toLowerCase\<close> maps A to Z and the capital letters of Latin-1
  (192 to 222, the multiplication sign 215 apart) 32 places up and leaves the rest, and
  \<open>trim\<close> strips tab, line feed, vertical tab, form feed, carriage return, space and the
  no-break space 160 from both ends.
\<close>

definition toLowerChar :: "char \<Rightarrow> char" where
  "toLowerChar c =
     (let n = (of_char c :: nat)
      in if (65 \<le> n \<and> n \<le> 90) \<or> (192 \<le> n \<and> n \<le> 222 \<and> n \<noteq> 215)
         then char_of (n + 32) else c)"

definition toLowerCase :: "string \<Rightarrow> string" where
  "toLowerCase s = map toLowerChar s"

definition isWhiteSpace :: "char \<Rightarrow> bool" where
  "isWhiteSpace c =
     (let n = (of_char c :: nat)
      in (9 \<le> n \<and> n \<le> 13) \<or> n = 32 \<or> n = 160)"

definition trim :: "string \<Rightarrow> string" where
  "trim s = rev (dropWhile isWhiteSpace (rev (dropWhile isWhiteSpace s)))"

record Stage =
  id_s :: nat
  key :: string
  name :: string
  description :: string

definition WORKFLOW_STAGES :: "Stage list" where
  "WORKFLOW_STAGES =
    [\<lparr>id_s = 1, key = ''Intake'', name = ''Demand Capture'',
      description = ''Logging of new business demand''\<rparr>,
     \<lparr>id_s = 2, key = ''Screening'', name = ''Demand Qualification'',
      description = ''Assess business need, initial validation for business alignment''\<rparr>,
     \<lparr>id_s = 3, key = ''Assessment'', name = ''Demand Assessment'',
      description = ''PMO or Portfolio team assesses feasibility, risk, urgency''\<rparr>,
     \<lparr>id_s = 4, key = ''Evaluation'', name = ''Demand Evaluation'',
      description = ''Deeper analysis of impact, value, risk, capacity''\<rparr>,
     \<lparr>id_s = 5, key = ''Authorization'', name = ''Demand Prioritization & Authorization'',
      description = ''Formal evaluation/prioritization by Demand Board/Service Portfolio Board''\<rparr>,
     \<lparr>id_s = 6, key = ''Business Case Development'', name = ''Business Case Development'',
      description = ''Build formal business case for strategic/complex demands''\<rparr>,
     \<lparr>id_s = 7, key = ''Service Portfolio Entry'',
      name = ''Service Portfolio Entry / Service Pipeline'',
      description = ''Approved demand moves into service/project portfolio''\<rparr>,
     \<lparr>id_s = 8, key = ''Service Implementation/Monitoring'',
      name = ''Service Implementation / Monitoring'',
      description = ''Demand delivered as project/change, status tracked''\<rparr>,
     \<lparr>id_s = 9, key = ''Closure'', name = ''Demand Closure'',
      description = ''Closure & Feedback''\<rparr>]"

record WorkflowStage =
  id_w :: nat
  name_w :: string
  description_w :: string
  completed :: bool
  current :: bool

text \<open>
  \<open>buildWorkflow\<close> takes \<open>StageKey | string | null | undefined\<close>; \<open>None\<close> is \<open>null\<close> or
  \<open>undefined\<close>, which \<open>??\<close> does not tell apart. \<open>normKey\<close> is its local \<open>key\<close> and
  \<open>currentIndex\<close> its local of that name.
\<close>

definition normKey :: "string option \<Rightarrow> string" where
  "normKey currentKey =
     trim (toLowerCase (case currentKey of None \<Rightarrow> ''Intake'' | Some k \<Rightarrow> k))"

definition currentIndex :: "string option \<Rightarrow> int" where
  "currentIndex currentKey =
     max 0 (findIndex (\<lambda>s. toLowerCase (key s) = normKey currentKey) WORKFLOW_STAGES)"

definition buildWorkflow :: "string option \<Rightarrow> WorkflowStage list" where
  "buildWorkflow currentKey =
     map (\<lambda>(i, s). \<lparr>id_w = id_s s, name_w = name s, description_w = description s,
                     completed = (int i < currentIndex currentKey),
                     current = (int i = currentIndex currentKey)\<rparr>)
       (enumerate 0 WORKFLOW_STAGES)"

section \<open>The demand store (api)\<close>

definition isDigit :: "char \<Rightarrow> bool" where
  "isDigit c = (let n = (of_char c :: nat) in 48 \<le> n \<and> n \<le> 57)"

text \<open>The test \<open>/^\d{4}-\d{2}-\d{2}$/\<close>.\<close>

definition isDateOnly :: "string \<Rightarrow> bool" where
  "isDateOnly s =
     (case s of
        [y1, y2, y3, y4, d1, m1, m2, d2, t1, t2] \<Rightarrow>
          isDigit y1 \<and> isDigit y2 \<and> isDigit y3 \<and> isDigit y4 \<and> d1 = CHR ''-'' \<and>
          isDigit m1 \<and> isDigit m2 \<and> d2 = CHR ''-'' \<and> isDigit t1 \<and> isDigit t2
      | _ \<Rightarrow> False)"

definition toUtcMidnight :: "jsval \<Rightarrow> jsval" where
  "toUtcMidnight dateLike =
     (if falsy dateLike then JUndefined
      else case dateLike of
             JStr s \<Rightarrow> if isDateOnly s then JStr (s @ ''T00:00:00Z'') else dateLike
           | _ \<Rightarrow> dateLike)"

text \<open>
  The store is an external REST service, keyed by the demand id. Its model is a map from
  ids to rows: a GET of an id it does not hold fails, and a PUT replaces the whole row by the
  payload and answers with the row it then holds, the full-row update that the comment on
  \<open>updateDemand\<close> describes. Transport failures are not part of the model.
\<close>

type_synonym store = "jsval \<rightharpoonup> obj"

definition getDemand :: "store \<Rightarrow> jsval \<Rightarrow> error + obj" where
  "getDemand db i = (case db i of None \<Rightarrow> Inl HttpError | Some row \<Rightarrow> Inr row)"

definition putDemand :: "store \<Rightarrow> jsval \<Rightarrow> obj \<Rightarrow> store \<times> obj" where
  "putDemand db i payload = (db(i \<mapsto> payload), payload)"

text \<open>
  Steps 2 and 3 of \<open>updateDemand\<close>: the merge \<open>{ ...cur, ...patch }\<close> and the payload built
  from it, key by key.
\<close>

definition updatePayload :: "jsval \<Rightarrow> obj \<Rightarrow> obj \<Rightarrow> (string \<times> jsval) list" where
  "updatePayload i cur patch =
     (let m = cur ++ patch in
      [(''id'', i),
       (''title'', nullish_or (getProp m ''title'') (JStr ''(Untitled)'')),
       (''type'', nullish_or (getProp m ''type'') JNull),
       (''priority'', nullish_or (getProp m ''priority'') JNull),
       (''status'', nullish_or (getProp m ''status'') JNull),
       (''current_stage'',
          nullish_or (nullish_or (getProp m ''current_stage'') (getProp m ''currentStage'')) JNull),
       (''description'', nullish_or (getProp m ''description'') JNull),
       (''requestor'', nullish_or (getProp m ''requestor'') JNull),
       (''department'', nullish_or (getProp m ''department'') JNull),
       (''expected_start_date'',
          nullish_or (toUtcMidnight (nullish_or (getProp m ''expected_start_date'')
                                                (getProp m ''expectedStartDate''))) JNull),
       (''expected_delivery'',
          nullish_or (toUtcMidnight (nullish_or (getProp m ''expected_delivery'')
                                                (getProp m ''expectedDelivery''))) JNull),
       (''business_justification'', nullish_or (getProp m ''business_justification'') JNull),
       (''expected_benefits'', nullish_or (getProp m ''expected_benefits'') JNull),
       (''risk_assessment'', nullish_or (getProp m ''risk_assessment'') JNull),
       (''success_criteria'', nullish_or (getProp m ''success_criteria'') JNull),
       (''estimated_cost'', nullish_or (getProp m ''estimated_cost'') JNull),
       (''budget_source'', nullish_or (getProp m ''budget_source'') JNull),
       (''cost_category'', nullish_or (getProp m ''cost_category'') JNull),
       (''roi'', nullish_or (getProp m ''roi'') JNull),
       (''progress'', nullish_or (getProp m ''progress'') JNull),
       (''created_date'',
          nullish_or (nullish_or (getProp cur ''created_date'') (getProp cur ''createdDate''))
            JNull)])"

definition updateDemand :: "store \<Rightarrow> jsval \<Rightarrow> obj \<Rightarrow> error + (store \<times> obj)" where
  "updateDemand db i patch =
     (case getDemand db i of
        Inl e \<Rightarrow> Inl e
      | Inr cur \<Rightarrow> Inr (putDemand db i (map_of (updatePayload i cur patch))))"

section \<open>Sequential approve and reject from the modal\<close>

text \<open>
  The part of the component's state that the approval code reads and sets. The acting role
  is the component's own state \<open>currentRole\<close>; \<open>approveSelected\<close> and \<open>rejectSelected\<close>
  mention it in log lines and in the wording of a failure alert only. Alerts are kept by
  kind, without their wording.
\<close>

record ui =
  selectedDemand :: "obj option"
  currentRole :: Role
  demands :: "obj list"

datatype alert = ApprovedFinal | ApprovedMoved string | ApprovalFailed | RejectedDone | RejectFailed

text \<open>
  The stage of a demand is read in two ways: the guard and the approval read
  \<open>current_stage || currentStage\<close>, the tables and the progress list display
  \<open>current_stage ?? currentStage\<close>.
\<close>

definition selectedStage :: "obj \<Rightarrow> jsval" where
  "selectedStage d = js_or (getProp d ''current_stage'') (getProp d ''currentStage'')"

definition displayedStage :: "obj \<Rightarrow> jsval" where
  "displayedStage d = nullish_or (getProp d ''current_stage'') (getProp d ''currentStage'')"

definition userCanActOnSelected :: "ui \<Rightarrow> error + bool" where
  "userCanActOnSelected u =
     (case selectedDemand u of
        None \<Rightarrow> Inr False
      | Some d \<Rightarrow>
          (case requiredRoleForStage (selectedStage d) of
             Inl e \<Rightarrow> Inl e
           | Inr r \<Rightarrow>
               Inr (r = Some (currentRole u) \<and>
                    (getProp d ''status'' = JStr ''Submitted'' \<or>
                     getProp d ''status'' = JStr ''Under Review''))))"

text \<open>
  The Approve and Reject buttons of the modal's approvals tab are rendered under
  \<open>(current_stage || currentStage) && userCanActOnSelected\<close>.
\<close>

definition approvalControlsShown :: "ui \<Rightarrow> error + bool" where
  "approvalControlsShown u =
     (case userCanActOnSelected u of
        Inl e \<Rightarrow> Inl e
      | Inr can \<Rightarrow>
          (case selectedDemand u of
             None \<Rightarrow> Inr False
           | Some d \<Rightarrow> Inr (\<not> falsy (selectedStage d) \<and> can)))"

text \<open>The locals \<open>isLastApprover\<close> and \<open>patch\<close> of \<open>approveSelected\<close>.\<close>

definition isLastApprover :: "jsval \<Rightarrow> bool" where
  "isLastApprover cur =
     (stageIndex cur \<ge> findIndex (\<lambda>s. stage s = ''Authorization'') STAGE_FLOW)"

definition approvePatch :: "jsval \<Rightarrow> string \<Rightarrow> obj" where
  "approvePatch cur nextStage =
     (if isLastApprover cur
      then [''status'' \<mapsto> JStr ''Approved'', ''current_stage'' \<mapsto> JStr nextStage]
      else [''status'' \<mapsto> JStr ''Under Review'', ''current_stage'' \<mapsto> JStr nextStage])"

definition replaceRow :: "jsval \<Rightarrow> obj \<Rightarrow> obj list \<Rightarrow> obj list" where
  "replaceRow i new rows = map (\<lambda>r. if getProp r ''id'' = i then new else r) rows"

definition approveSelected :: "ui \<Rightarrow> store \<Rightarrow> error + (ui \<times> store \<times> alert option)" where
  "approveSelected u db =
     (case selectedDemand u of
        None \<Rightarrow> Inr (u, db, None)
      | Some d \<Rightarrow>
          (let cur = js_or (selectedStage d) (JStr ''Intake'')
           in case nextStageFrom cur of
                Inl e \<Rightarrow> Inl e
              | Inr nextStage \<Rightarrow>
                  (case updateDemand db (getProp d ''id'') (approvePatch cur nextStage) of
                     Inl e \<Rightarrow> Inr (u, db, Some ApprovalFailed)
                   | Inr (db', updated) \<Rightarrow>
                       (let merged = d ++ updated
                        in Inr (u\<lparr>demands := replaceRow (getProp d ''id'') merged (demands u),
                                  selectedDemand := Some merged\<rparr>,
                                db',
                                Some (if isLastApprover cur then ApprovedFinal
                                      else ApprovedMoved nextStage))))))"

definition rejectPatch :: obj where
  "rejectPatch = [''status'' \<mapsto> JStr ''Rejected'']"

definition rejectSelected :: "ui \<Rightarrow> store \<Rightarrow> ui \<times> store \<times> alert option" where
  "rejectSelected u db =
     (case selectedDemand u of
        None \<Rightarrow> (u, db, None)
      | Some d \<Rightarrow>
          (case updateDemand db (getProp d ''id'') rejectPatch of
             Inl e \<Rightarrow> (u, db, Some RejectFailed)
           | Inr (db', updated) \<Rightarrow>
               (u\<lparr>demands := replaceRow (getProp d ''id'') updated (demands u),
                  selectedDemand := Some updated\<rparr>,
                db', Some RejectedDone)))"

section \<open>Observations and sample data\<close>

text \<open>
  What the store holds for a demand, and what an approval or a rejection leaves there:
  the stored status, the stored \<open>current_stage\<close> and the alert shown.
\<close>

definition storedField :: "store \<Rightarrow> jsval \<Rightarrow> string \<Rightarrow> jsval" where
  "storedField db i k = (case db i of None \<Rightarrow> JUndefined | Some row \<Rightarrow> getProp row k)"


definition approveOutcome ::
  "ui \<Rightarrow> store \<Rightarrow> jsval \<Rightarrow> error + (jsval \<times> jsval \<times> alert option)" where
  "approveOutcome u db i =
     (case approveSelected u db of
        Inl e \<Rightarrow> Inl e
      | Inr (u', db', a) \<Rightarrow>
          Inr (storedField db' i ''status'', storedField db' i ''current_stage'', a))"

definition rejectOutcome :: "ui \<Rightarrow> store \<Rightarrow> jsval \<Rightarrow> jsval \<times> jsval \<times> alert option" where
  "rejectOutcome u db i =
     (case rejectSelected u db of
        (u', db', a) \<Rightarrow> (storedField db' i ''status'', storedField db' i ''current_stage'', a))"

definition exampleRow :: obj where
  "exampleRow =
     [''id'' \<mapsto> JStr ''D-1001'', ''title'' \<mapsto> JStr ''New CRM'',
      ''status'' \<mapsto> JStr ''Under Review'', ''current_stage'' \<mapsto> JStr ''Screening'',
      ''created_date'' \<mapsto> JStr ''2024-01-01'', ''expected_delivery'' \<mapsto> JStr ''2025-03-01'',
      ''progress'' \<mapsto> JNum 40]"

definition exampleStore :: store where
  "exampleStore = [JStr ''D-1001'' \<mapsto> exampleRow]"

definition exampleUi :: "obj \<Rightarrow> Role \<Rightarrow> ui" where
  "exampleUi d r = \<lparr>selectedDemand = Some d, currentRole = r, demands = [d]\<rparr>"




section \<open>Basic facts\<close>

lemma findIndex_bounds: "-1 \<le> findIndex P xs \<and> findIndex P xs < int (length xs)"
  by (induction xs) (auto simp: Let_def)

lemma findIndex_none: "(\<forall>x\<in>set xs. \<not> P x) \<Longrightarrow> findIndex P xs = -1"
  by (induction xs) (auto simp: Let_def)

lemma stageIndex_cases:
  "stageIndex v =
     (if v = JStr ''Screening'' then 1
      else if v = JStr ''Assessment'' then 2
      else if v = JStr ''Authorization'' then 3
      else if v = JStr ''Service Portfolio Entry'' then 4
      else 0)"
  by (cases v) (auto simp: stageIndex_def STAGE_FLOW_def nullish_or_def nullish_def Let_def)

lemma requiredRoleForStage_cases:
  "requiredRoleForStage v =
     Inr (if v = JStr ''Screening'' then Some BUHead
          else if v = JStr ''Assessment'' then Some ITPMO
          else if v = JStr ''Authorization'' then Some DBR
          else if v = JStr ''Service Portfolio Entry'' then None
          else Some DemandRequestor)"
  by (simp add: requiredRoleForStage_def stageIndex_cases at_index_def STAGE_FLOW_def)

lemma nextStageFrom_cases:
  "nextStageFrom v =
     Inr (if v = JStr ''Screening'' then ''Assessment''
          else if v = JStr ''Assessment'' then ''Authorization''
          else if v = JStr ''Authorization'' then ''Service Portfolio Entry''
          else if v = JStr ''Service Portfolio Entry'' then ''Service Portfolio Entry''
          else ''Screening'')"
  by (simp add: nextStageFrom_def stageIndex_cases at_index_def STAGE_FLOW_def Let_def)

lemma requiredRoleForStage_total: "\<exists>r. requiredRoleForStage v = Inr r"
  by (simp add: requiredRoleForStage_cases)

lemma isLastApprover_cases:
  "isLastApprover v = (v = JStr ''Authorization'' \<or> v = JStr ''Service Portfolio Entry'')"
  by (simp add: isLastApprover_def stageIndex_cases STAGE_FLOW_def)

lemma stageIndex_unknown: "k \<notin> set (map stage STAGE_FLOW) \<Longrightarrow> stageIndex (JStr k) = 0"
  by (simp add: stageIndex_cases STAGE_FLOW_def)

lemma stageIndex_exact:
  "j < length STAGE_FLOW \<Longrightarrow> stageIndex (JStr (stage (STAGE_FLOW ! j))) = int j"
proof -
  assume "j < length STAGE_FLOW"
  then have "j = 0 \<or> j = 1 \<or> j = 2 \<or> j = 3 \<or> j = 4"
    by (auto simp: STAGE_FLOW_def)
  then show ?thesis
    by (auto simp: stageIndex_cases STAGE_FLOW_def)
qed

subsection \<open>The payload of an update\<close>

lemma getProp_merge:
  "getProp (cur ++ patch) k = (case patch k of Some v \<Rightarrow> v | None \<Rightarrow> getProp cur k)"
  by (simp add: getProp_def map_add_def split: option.splits)

lemma merged_or_null:
  "nullish_or (getProp (cur ++ patch) k) dflt =
     (case patch k of
        Some v \<Rightarrow> if nullish v then dflt else v
      | None \<Rightarrow> if nullish (getProp cur k) then dflt else getProp cur k)"
  by (simp add: getProp_merge nullish_or_def split: option.splits)

lemma payload_status:
  "map_of (updatePayload i cur patch) ''status'' =
     Some (nullish_or (getProp (cur ++ patch) ''status'') JNull)"
  by (simp add: updatePayload_def Let_def)

lemma payload_current_stage:
  "map_of (updatePayload i cur patch) ''current_stage'' =
     Some (nullish_or (nullish_or (getProp (cur ++ patch) ''current_stage'')
                                  (getProp (cur ++ patch) ''currentStage'')) JNull)"
  by (simp add: updatePayload_def Let_def)

lemma payload_plain:
  "k \<in> set [''type'', ''priority'', ''status'', ''description'', ''requestor'', ''department'',
       ''business_justification'', ''expected_benefits'', ''risk_assessment'',
       ''success_criteria'', ''estimated_cost'', ''budget_source'', ''cost_category'', ''roi'',
       ''progress''] \<Longrightarrow>
   map_of (updatePayload i cur patch) k = Some (nullish_or (getProp (cur ++ patch) k) JNull)"
  unfolding set_simps insert_iff empty_iff
  by (elim disjE FalseE) (simp_all add: updatePayload_def Let_def)

lemma payload_others:
  "map_of (updatePayload i cur patch) ''id'' = Some i"
  "map_of (updatePayload i cur patch) ''title'' =
     Some (nullish_or (getProp (cur ++ patch) ''title'') (JStr ''(Untitled)''))"
  "map_of (updatePayload i cur patch) ''expected_start_date'' =
     Some (nullish_or (toUtcMidnight (nullish_or (getProp (cur ++ patch) ''expected_start_date'')
        (getProp (cur ++ patch) ''expectedStartDate''))) JNull)"
  "map_of (updatePayload i cur patch) ''expected_delivery'' =
     Some (nullish_or (toUtcMidnight (nullish_or (getProp (cur ++ patch) ''expected_delivery'')
        (getProp (cur ++ patch) ''expectedDelivery''))) JNull)"
  "map_of (updatePayload i cur patch) ''created_date'' =
     Some (nullish_or (nullish_or (getProp cur ''created_date'') (getProp cur ''createdDate''))
        JNull)"
  by (simp_all add: updatePayload_def Let_def)

lemma updateDemand_stored:
  "db i = Some cur \<Longrightarrow>
   updateDemand db i patch =
     Inr (db(i \<mapsto> map_of (updatePayload i cur patch)), map_of (updatePayload i cur patch))"
  by (simp add: updateDemand_def getDemand_def putDemand_def)

lemma approvePatch_payload:
  "getProp (map_of (updatePayload i cur (approvePatch c n))) ''status'' =
     JStr (if isLastApprover c then ''Approved'' else ''Under Review'') \<and>
   getProp (map_of (updatePayload i cur (approvePatch c n))) ''current_stage'' = JStr n"
  by (simp add: getProp_def payload_status payload_current_stage approvePatch_def
      nullish_or_def nullish_def map_add_def)

lemma rejectPatch_payload:
  "getProp (map_of (updatePayload i cur rejectPatch)) ''status'' = JStr ''Rejected'' \<and>
   getProp (map_of (updatePayload i cur rejectPatch)) ''current_stage'' =
     nullish_or (displayedStage cur) JNull \<and>
   getProp (map_of (updatePayload i cur rejectPatch)) ''currentStage'' = JUndefined"
proof -
  have m: "getProp (cur ++ rejectPatch) ''status'' = JStr ''Rejected''"
    "getProp (cur ++ rejectPatch) ''current_stage'' = getProp cur ''current_stage''"
    "getProp (cur ++ rejectPatch) ''currentStage'' = getProp cur ''currentStage''"
    by (simp_all add: getProp_def rejectPatch_def)
  have "getProp (map_of (updatePayload i cur rejectPatch)) ''status'' = JStr ''Rejected''"
    using payload_status [of i cur rejectPatch]
    by (simp add: getProp_def [of "map_of _"] m nullish_or_def nullish_def)
  moreover have "getProp (map_of (updatePayload i cur rejectPatch)) ''current_stage'' =
     nullish_or (displayedStage cur) JNull"
    using payload_current_stage [of i cur rejectPatch]
    by (simp add: getProp_def [of "map_of _"] m displayedStage_def)
  moreover have "map_of (updatePayload i cur rejectPatch) ''currentStage'' = None"
    by (simp add: updatePayload_def Let_def)
  then have "getProp (map_of (updatePayload i cur rejectPatch)) ''currentStage'' = JUndefined"
    by (simp add: getProp_def)
  ultimately show ?thesis by simp
qed

subsection \<open>What approve and reject write\<close>

lemma approveSelected_written:
  assumes "selectedDemand u = Some d" and "db (getProp d ''id'') = Some cur"
    and "nextStageFrom (js_or (selectedStage d) (JStr ''Intake'')) = Inr n"
    and "p = map_of (updatePayload (getProp d ''id'') cur
                 (approvePatch (js_or (selectedStage d) (JStr ''Intake'')) n))"
  shows "approveSelected u db =
     Inr (u\<lparr>demands := replaceRow (getProp d ''id'') (d ++ p) (demands u),
             selectedDemand := Some (d ++ p)\<rparr>,
          db(getProp d ''id'' \<mapsto> p),
          Some (if isLastApprover (js_or (selectedStage d) (JStr ''Intake''))
                then ApprovedFinal else ApprovedMoved n))"
  using assms by (simp add: approveSelected_def updateDemand_stored Let_def)

lemma approveOutcome_at:
  assumes "selectedDemand u = Some d" and "db (getProp d ''id'') = Some cur"
    and "selectedStage d = JStr k" and "k \<noteq> []" and "nextStageFrom (JStr k) = Inr n"
  shows "approveOutcome u db (getProp d ''id'') =
     Inr (JStr (if isLastApprover (JStr k) then ''Approved'' else ''Under Review''), JStr n,
          Some (if isLastApprover (JStr k) then ApprovedFinal else ApprovedMoved n))"
proof -
  have c: "js_or (selectedStage d) (JStr ''Intake'') = JStr k"
    using assms(3,4) by (simp add: js_or_def falsy_def)
  let ?p = "map_of (updatePayload (getProp d ''id'') cur (approvePatch (JStr k) n))"
  have "approveSelected u db =
       Inr (u\<lparr>demands := replaceRow (getProp d ''id'') (d ++ ?p) (demands u),
               selectedDemand := Some (d ++ ?p)\<rparr>,
            db(getProp d ''id'' \<mapsto> ?p),
            Some (if isLastApprover (JStr k) then ApprovedFinal else ApprovedMoved n))"
    using approveSelected_written [of u d db cur n ?p] assms(1,2,5) by (simp add: c)
  moreover have "getProp ?p ''status'' =
       JStr (if isLastApprover (JStr k) then ''Approved'' else ''Under Review'') \<and>
     getProp ?p ''current_stage'' = JStr n"
    using approvePatch_payload [of "getProp d ''id''" cur "JStr k" n] by simp
  ultimately show ?thesis
    by (simp add: approveOutcome_def storedField_def)
qed

lemma rejectSelected_written:
  assumes "selectedDemand u = Some d" and "db (getProp d ''id'') = Some cur"
    and "p = map_of (updatePayload (getProp d ''id'') cur rejectPatch)"
  shows "rejectSelected u db =
     (u\<lparr>demands := replaceRow (getProp d ''id'') p (demands u), selectedDemand := Some p\<rparr>,
      db(getProp d ''id'' \<mapsto> p), Some RejectedDone)"
  using assms by (simp add: rejectSelected_def updateDemand_stored)



lemma approveSelected_role:
  "approveSelected (u\<lparr>currentRole := r\<rparr>) db =
     map_sum id (\<lambda>(u', rest). (u'\<lparr>currentRole := r\<rparr>, rest)) (approveSelected u db)"
  by (simp add: approveSelected_def Let_def split: option.splits sum.splits prod.splits)

lemma rejectSelected_role:
  "rejectSelected (u\<lparr>currentRole := r\<rparr>) db =
     (\<lambda>(u', rest). (u'\<lparr>currentRole := r\<rparr>, rest)) (rejectSelected u db)"
  by (simp add: rejectSelected_def split: option.splits sum.splits prod.splits)

subsection \<open>The sample demand\<close>

lemma example_facts:
  "getProp exampleRow ''id'' = JStr ''D-1001''"
  "getProp exampleRow ''status'' = JStr ''Under Review''"
  "getProp exampleRow ''current_stage'' = JStr ''Screening''"
  "getProp exampleRow ''currentStage'' = JUndefined"
  "selectedStage exampleRow = JStr ''Screening''"
  "displayedStage exampleRow = JStr ''Screening''"
  by (simp_all add: getProp_def exampleRow_def selectedStage_def displayedStage_def
      js_or_def falsy_def nullish_or_def nullish_def)

lemma example_selected: "selectedDemand (exampleUi d r) = Some d"
  by (simp add: exampleUi_def)

lemma example_stored: "exampleStore (getProp exampleRow ''id'') = Some exampleRow"
  by (simp add: example_facts exampleStore_def)

lemma example_denied: "userCanActOnSelected (exampleUi exampleRow ITPMO) = Inr False"
  by (simp add: userCanActOnSelected_def exampleUi_def example_facts requiredRoleForStage_cases)


subsection \<open>Lower-casing and trimming\<close>

lemma isWhiteSpace_toLowerChar: "isWhiteSpace (toLowerChar c) = isWhiteSpace c"
  by (auto simp: isWhiteSpace_def toLowerChar_def Let_def)

lemma toLowerCase_append: "toLowerCase (a @ b) = toLowerCase a @ toLowerCase b"
  by (simp add: toLowerCase_def)

lemma whitespace_toLowerCase:
  "(\<forall>c\<in>set a. isWhiteSpace c) \<Longrightarrow> (\<forall>c\<in>set (toLowerCase a). isWhiteSpace c)"
  by (simp add: toLowerCase_def isWhiteSpace_toLowerChar)

lemma dropWhile_all: "\<forall>c\<in>set a. P c \<Longrightarrow> dropWhile P (a @ ys) = dropWhile P ys"
  by (induction a) auto

lemma trim_padded:
  assumes "\<forall>c\<in>set a. isWhiteSpace c" and "\<forall>c\<in>set b. isWhiteSpace c"
  shows "trim (a @ s @ b) = trim s"
proof -
  have front: "dropWhile isWhiteSpace (a @ s @ b) = dropWhile isWhiteSpace (s @ b)"
    using assms(1) by (rule dropWhile_all)
  have rb: "\<forall>c\<in>set (rev b). isWhiteSpace c"
    using assms(2) by simp
  show ?thesis
  proof (cases "\<forall>c\<in>set s. isWhiteSpace c")
    case True
    have sb: "\<forall>c\<in>set (s @ b). isWhiteSpace c"
      using True assms(2) by auto
    have e1: "dropWhile isWhiteSpace (s @ b) = []"
      using sb by (simp only: dropWhile_eq_Nil_conv)
    have e2: "dropWhile isWhiteSpace s = []"
      using True by (simp only: dropWhile_eq_Nil_conv)
    show ?thesis
      unfolding trim_def front e1 e2 by simp
  next
    case False
    then obtain c where "c \<in> set s" "\<not> isWhiteSpace c" by blast
    then have "dropWhile isWhiteSpace (s @ b) = dropWhile isWhiteSpace s @ b"
      by (simp add: dropWhile_append1)
    then have "rev (dropWhile isWhiteSpace (s @ b)) = rev b @ rev (dropWhile isWhiteSpace s)"
      by simp
    then have "dropWhile isWhiteSpace (rev (dropWhile isWhiteSpace (s @ b))) =
        dropWhile isWhiteSpace (rev (dropWhile isWhiteSpace s))"
      using dropWhile_all [OF rb] by simp
    then show ?thesis by (simp add: trim_def front)
  qed
qed

lemma normKey_padded:
  assumes "\<forall>c\<in>set a. isWhiteSpace c" and "\<forall>c\<in>set b. isWhiteSpace c"
    and "toLowerCase s = toLowerCase t"
  shows "normKey (Some (a @ s @ b)) = normKey (Some t)"
  using trim_padded [OF whitespace_toLowerCase [OF assms(1)] whitespace_toLowerCase [OF assms(2)],
      of "toLowerCase s"] assms(3)
  by (simp add: normKey_def toLowerCase_append)

lemma currentIndex_unknown:
  "normKey k \<notin> set (map (\<lambda>s. toLowerCase (key s)) WORKFLOW_STAGES) \<Longrightarrow> currentIndex k = 0"
proof -
  assume "normKey k \<notin> set (map (\<lambda>s. toLowerCase (key s)) WORKFLOW_STAGES)"
  then have "\<forall>s\<in>set WORKFLOW_STAGES. \<not> toLowerCase (key s) = normKey k"
    by (force simp: image_iff)
  then have "findIndex (\<lambda>s. toLowerCase (key s) = normKey k) WORKFLOW_STAGES = -1"
    by (rule findIndex_none)
  then show ?thesis by (simp add: currentIndex_def)
qed

lemma currentIndex_range: "0 \<le> currentIndex k \<and> currentIndex k < 9"
  using findIndex_bounds [of "\<lambda>s. toLowerCase (key s) = normKey k" WORKFLOW_STAGES]
  by (simp add: currentIndex_def WORKFLOW_STAGES_def)

lemma currentIndex_null: "currentIndex None = 0"
  by code_simp

lemma currentIndex_samples:
  "currentIndex (Some ''Screening'') = 1"
  "currentIndex (Some ''screening'') = 1"
  "currentIndex (Some '' Screening '') = 1"
  "currentIndex (Some ''Assessment'') = 2"
  "currentIndex (Some []) = 0"
  by code_simp+

lemma backlog_unknown:
  "normKey (Some ''Backlog'') \<notin> set (map (\<lambda>s. toLowerCase (key s)) WORKFLOW_STAGES)"
  by code_simp

lemma flow_keys_in_table:
  "k \<in> set (map stage STAGE_FLOW) \<Longrightarrow>
   normKey (Some k) \<in> set (map (\<lambda>s. toLowerCase (key s)) WORKFLOW_STAGES)"
proof -
  have f: "normKey (Some ''Intake'') \<in> set (map (\<lambda>s. toLowerCase (key s)) WORKFLOW_STAGES)"
    "normKey (Some ''Screening'') \<in> set (map (\<lambda>s. toLowerCase (key s)) WORKFLOW_STAGES)"
    "normKey (Some ''Assessment'') \<in> set (map (\<lambda>s. toLowerCase (key s)) WORKFLOW_STAGES)"
    "normKey (Some ''Authorization'') \<in> set (map (\<lambda>s. toLowerCase (key s)) WORKFLOW_STAGES)"
    "normKey (Some ''Service Portfolio Entry'')
       \<in> set (map (\<lambda>s. toLowerCase (key s)) WORKFLOW_STAGES)"
    by code_simp+
  assume "k \<in> set (map stage STAGE_FLOW)"
  then have "k = ''Intake'' \<or> k = ''Screening'' \<or> k = ''Assessment''
    \<or> k = ''Authorization'' \<or> k = ''Service Portfolio Entry''"
    by (simp add: STAGE_FLOW_def)
  with f show ?thesis by blast
qed

section \<open>The guard\<close>

text \<open>
  Claim C2. With a demand selected, \<open>userCanActOnSelected\<close> never throws, and it is true
  exactly when the acting role is the role required at the demand's stage and the status is
  Submitted or Under Review. In particular it is false for the statuses Draft, Approved,
  Rejected and Completed, also when the role matches.
\<close>

theorem userCanActOnSelected_guard:
  "(userCanActOnSelected \<lparr>selectedDemand = Some d, currentRole = r, demands = ds\<rparr> = Inr True
      \<or> userCanActOnSelected \<lparr>selectedDemand = Some d, currentRole = r, demands = ds\<rparr> = Inr False)
   \<and> ((userCanActOnSelected \<lparr>selectedDemand = Some d, currentRole = r, demands = ds\<rparr> = Inr True)
        = (requiredRoleForStage (selectedStage d) = Inr (Some r) \<and>
           getProp d ''status'' \<in> {JStr ''Submitted'', JStr ''Under Review''}))
   \<and> (getProp d ''status'' \<in> {JStr ''Draft'', JStr ''Approved'', JStr ''Rejected'', JStr ''Completed''}
        \<longrightarrow> userCanActOnSelected \<lparr>selectedDemand = Some d, currentRole = r, demands = ds\<rparr>
              = Inr False)"
proof -
  obtain q where q: "requiredRoleForStage (selectedStage d) = Inr q"
    using requiredRoleForStage_total by blast
  show ?thesis
    by (auto simp: userCanActOnSelected_def q)
qed

theorem userCanActOnSelected_guard_witness:
  "requiredRoleForStage (selectedStage (exampleRow(''status'' \<mapsto> JStr ''Draft''))) = Inr (Some BUHead) \<and>
   getProp (exampleRow(''status'' \<mapsto> JStr ''Draft'')) ''status'' = JStr ''Draft'' \<and>
   userCanActOnSelected
     \<lparr>selectedDemand = Some (exampleRow(''status'' \<mapsto> JStr ''Draft'')), currentRole = BUHead,
      demands = []\<rparr> = Inr False"
proof -
  let ?d = "exampleRow(''status'' \<mapsto> JStr ''Draft'')"
  have s: "getProp ?d ''status'' = JStr ''Draft''"
    by (simp add: getProp_def)
  have g: "selectedStage ?d = JStr ''Screening''"
    by (simp add: selectedStage_def getProp_def exampleRow_def js_or_def falsy_def)
  have r: "requiredRoleForStage (selectedStage ?d) = Inr (Some BUHead)"
    by (simp add: g requiredRoleForStage_cases)
  from userCanActOnSelected_guard [of ?d BUHead "[]"] s r show ?thesis
    by simp
qed

text \<open>
  Claim C1, as the code has it. The Approve and Reject buttons are rendered only while
  \<open>userCanActOnSelected\<close> is true, so with the guard false neither operation can be started
  from the modal. The operations themselves do not check the guard again and have no
  permission error. With a demand selected whose row the store holds they always write,
  whatever the status and the acting role: \<open>approveSelected\<close> the status and next stage of
  the transition, \<open>rejectSelected\<close> the status Rejected. They return without a write exactly
  when no demand is selected or the store does not hold its row, and what they store and
  report is the same for every acting role.
\<close>

theorem approval_guard_at_controls:
  "(userCanActOnSelected u = Inr False \<longrightarrow> approvalControlsShown u = Inr False)
   \<and> (selectedDemand u = None \<longrightarrow>
        approveSelected u db = Inr (u, db, None) \<and> rejectSelected u db = (u, db, None))
   \<and> (selectedDemand u = Some d \<and> db (getProp d ''id'') = None \<longrightarrow>
        approveSelected u db = Inr (u, db, Some ApprovalFailed) \<and>
        rejectSelected u db = (u, db, Some RejectFailed))
   \<and> (selectedDemand u = Some d \<and> db (getProp d ''id'') = Some cur \<longrightarrow>
        (\<exists>n p. nextStageFrom (js_or (selectedStage d) (JStr ''Intake'')) = Inr n \<and>
           p = map_of (updatePayload (getProp d ''id'') cur
                  (approvePatch (js_or (selectedStage d) (JStr ''Intake'')) n)) \<and>
           approveSelected u db =
             Inr (u\<lparr>demands := replaceRow (getProp d ''id'') (d ++ p) (demands u),
                     selectedDemand := Some (d ++ p)\<rparr>,
                  db(getProp d ''id'' \<mapsto> p),
                  Some (if isLastApprover (js_or (selectedStage d) (JStr ''Intake''))
                        then ApprovedFinal else ApprovedMoved n)) \<and>
           getProp p ''status'' =
             JStr (if isLastApprover (js_or (selectedStage d) (JStr ''Intake''))
                   then ''Approved'' else ''Under Review'') \<and>
           getProp p ''current_stage'' = JStr n)
        \<and> (\<exists>p. p = map_of (updatePayload (getProp d ''id'') cur rejectPatch) \<and>
           rejectSelected u db =
             (u\<lparr>demands := replaceRow (getProp d ''id'') p (demands u),
                 selectedDemand := Some p\<rparr>,
              db(getProp d ''id'' \<mapsto> p), Some RejectedDone) \<and>
           getProp p ''status'' = JStr ''Rejected''))
   \<and> ((approveSelected u db = Inr (u, db, None) \<or>
         approveSelected u db = Inr (u, db, Some ApprovalFailed))
        = (selectedDemand u = None \<or>
           (\<exists>d'. selectedDemand u = Some d' \<and> db (getProp d' ''id'') = None)))
   \<and> ((rejectSelected u db = (u, db, None) \<or> rejectSelected u db = (u, db, Some RejectFailed))
        = (selectedDemand u = None \<or>
           (\<exists>d'. selectedDemand u = Some d' \<and> db (getProp d' ''id'') = None)))
   \<and> approveOutcome (u\<lparr>currentRole := r\<rparr>) db i = approveOutcome u db i
   \<and> rejectOutcome (u\<lparr>currentRole := r\<rparr>) db i = rejectOutcome u db i"
proof -
  have shown: "userCanActOnSelected u = Inr False \<longrightarrow> approvalControlsShown u = Inr False"
    by (simp add: approvalControlsShown_def split: option.splits)
  have none: "approveSelected u db = Inr (u, db, None) \<and> rejectSelected u db = (u, db, None)"
    if "selectedDemand u = None"
    using that by (simp add: approveSelected_def rejectSelected_def)
  have missing: "approveSelected u db = Inr (u, db, Some ApprovalFailed) \<and>
        rejectSelected u db = (u, db, Some RejectFailed)"
    if "selectedDemand u = Some e" and "db (getProp e ''id'') = None" for e
    using that
    by (simp add: approveSelected_def rejectSelected_def updateDemand_def getDemand_def
        nextStageFrom_cases Let_def)
  have appr: "\<exists>n p. nextStageFrom (js_or (selectedStage e) (JStr ''Intake'')) = Inr n \<and>
           p = map_of (updatePayload (getProp e ''id'') c
                  (approvePatch (js_or (selectedStage e) (JStr ''Intake'')) n)) \<and>
           approveSelected u db =
             Inr (u\<lparr>demands := replaceRow (getProp e ''id'') (e ++ p) (demands u),
                     selectedDemand := Some (e ++ p)\<rparr>,
                  db(getProp e ''id'' \<mapsto> p),
                  Some (if isLastApprover (js_or (selectedStage e) (JStr ''Intake''))
                        then ApprovedFinal else ApprovedMoved n)) \<and>
           getProp p ''status'' =
             JStr (if isLastApprover (js_or (selectedStage e) (JStr ''Intake''))
                   then ''Approved'' else ''Under Review'') \<and>
           getProp p ''current_stage'' = JStr n"
    if "selectedDemand u = Some e" and "db (getProp e ''id'') = Some c" for e c
  proof -
    obtain n where n: "nextStageFrom (js_or (selectedStage e) (JStr ''Intake'')) = Inr n"
      by (simp add: nextStageFrom_cases)
    let ?p = "map_of (updatePayload (getProp e ''id'') c
                  (approvePatch (js_or (selectedStage e) (JStr ''Intake'')) n))"
    have "approveSelected u db =
             Inr (u\<lparr>demands := replaceRow (getProp e ''id'') (e ++ ?p) (demands u),
                     selectedDemand := Some (e ++ ?p)\<rparr>,
                  db(getProp e ''id'' \<mapsto> ?p),
                  Some (if isLastApprover (js_or (selectedStage e) (JStr ''Intake''))
                        then ApprovedFinal else ApprovedMoved n))"
      using approveSelected_written [of u e db c n ?p] that n by simp
    with n approvePatch_payload [of "getProp e ''id''" c
        "js_or (selectedStage e) (JStr ''Intake'')" n]
    show ?thesis by blast
  qed
  have rej: "\<exists>p. p = map_of (updatePayload (getProp e ''id'') c rejectPatch) \<and>
           rejectSelected u db =
             (u\<lparr>demands := replaceRow (getProp e ''id'') p (demands u),
                 selectedDemand := Some p\<rparr>,
              db(getProp e ''id'' \<mapsto> p), Some RejectedDone) \<and>
           getProp p ''status'' = JStr ''Rejected''"
    if "selectedDemand u = Some e" and "db (getProp e ''id'') = Some c" for e c
    using rejectSelected_written [of u e db c
        "map_of (updatePayload (getProp e ''id'') c rejectPatch)"]
      rejectPatch_payload [of "getProp e ''id''" c] that
    by simp
  have only_a: "(approveSelected u db = Inr (u, db, None) \<or>
         approveSelected u db = Inr (u, db, Some ApprovalFailed))
        = (selectedDemand u = None \<or>
           (\<exists>d'. selectedDemand u = Some d' \<and> db (getProp d' ''id'') = None))"
  proof (cases "selectedDemand u")
    case None
    then show ?thesis using none by simp
  next
    case (Some e)
    show ?thesis
    proof (cases "db (getProp e ''id'')")
      case None
      then show ?thesis using Some missing [of e] by simp
    next
      case (Some c)
      with appr [of e c] \<open>selectedDemand u = Some e\<close> show ?thesis
        by (auto split: if_splits)
    qed
  qed
  have only_r: "(rejectSelected u db = (u, db, None) \<or>
         rejectSelected u db = (u, db, Some RejectFailed))
        = (selectedDemand u = None \<or>
           (\<exists>d'. selectedDemand u = Some d' \<and> db (getProp d' ''id'') = None))"
  proof (cases "selectedDemand u")
    case None
    then show ?thesis using none by simp
  next
    case (Some e)
    show ?thesis
    proof (cases "db (getProp e ''id'')")
      case None
      then show ?thesis using Some missing [of e] by simp
    next
      case (Some c)
      with rej [of e c] \<open>selectedDemand u = Some e\<close> show ?thesis
        by auto
    qed
  qed
  have role_a: "approveOutcome (u\<lparr>currentRole := r\<rparr>) db i = approveOutcome u db i"
    by (cases "approveSelected u db") (auto simp: approveOutcome_def approveSelected_role)
  have role_r: "rejectOutcome (u\<lparr>currentRole := r\<rparr>) db i = rejectOutcome u db i"
    by (cases "rejectSelected u db") (auto simp: rejectOutcome_def rejectSelected_role)
  from shown none missing [of d] appr [of d cur] rej [of d cur] only_a only_r role_a role_r
  show ?thesis by blast
qed

theorem approval_guard_at_controls_witness:
  "userCanActOnSelected (exampleUi exampleRow ITPMO) = Inr False \<and>
   approvalControlsShown (exampleUi exampleRow ITPMO) = Inr False \<and>
   approveOutcome (exampleUi exampleRow ITPMO) exampleStore (JStr ''D-1001'') =
     Inr (JStr ''Under Review'', JStr ''Assessment'', Some (ApprovedMoved ''Assessment'')) \<and>
   fst (rejectOutcome (exampleUi exampleRow ITPMO) exampleStore (JStr ''D-1001'')) =
     JStr ''Rejected''"
proof -
  let ?u = "exampleUi exampleRow ITPMO"
  have c: "js_or (selectedStage exampleRow) (JStr ''Intake'') = JStr ''Screening''"
    by (simp add: example_facts js_or_def falsy_def)
  have l: "\<not> isLastApprover (JStr ''Screening'')"
    by (simp add: isLastApprover_cases)
  note t = approval_guard_at_controls [of ?u exampleStore exampleRow exampleRow]
  from t example_denied have s: "approvalControlsShown ?u = Inr False"
    by blast
  from t example_selected [of exampleRow ITPMO] example_stored
  obtain n p where n: "nextStageFrom (JStr ''Screening'') = Inr n"
    and a: "approveSelected ?u exampleStore =
             Inr (?u\<lparr>demands := replaceRow (getProp exampleRow ''id'') (exampleRow ++ p)
                                  (demands ?u),
                     selectedDemand := Some (exampleRow ++ p)\<rparr>,
                  exampleStore(getProp exampleRow ''id'' \<mapsto> p),
                  Some (if isLastApprover (JStr ''Screening'')
                        then ApprovedFinal else ApprovedMoved n))"
    and ps: "getProp p ''status'' =
             JStr (if isLastApprover (JStr ''Screening'') then ''Approved'' else ''Under Review'')"
    and pc: "getProp p ''current_stage'' = JStr n"
    unfolding c by blast
  from n have n': "n = ''Assessment''"
    by (simp add: nextStageFrom_cases)
  have ao: "approveOutcome ?u exampleStore (JStr ''D-1001'') =
     Inr (JStr ''Under Review'', JStr ''Assessment'', Some (ApprovedMoved ''Assessment''))"
    using ps pc l n' by (simp add: approveOutcome_def a storedField_def example_facts)
  from t example_selected [of exampleRow ITPMO] example_stored
  obtain q where r: "rejectSelected ?u exampleStore =
             (?u\<lparr>demands := replaceRow (getProp exampleRow ''id'') q (demands ?u),
                 selectedDemand := Some q\<rparr>,
              exampleStore(getProp exampleRow ''id'' \<mapsto> q), Some RejectedDone)"
    and qs: "getProp q ''status'' = JStr ''Rejected''"
    by blast
  have ro: "fst (rejectOutcome ?u exampleStore (JStr ''D-1001'')) = JStr ''Rejected''"
    using qs by (simp add: rejectOutcome_def r storedField_def example_facts)
  from example_denied s ao ro show ?thesis by simp
qed

text \<open>
  The claim as first stated fails: a demand at Screening under review, the acting role
  ITPMO. The guard is false, yet \<open>approveSelected\<close> moves the stored demand to Assessment and
  \<open>rejectSelected\<close> stores the status Rejected.
\<close>

theorem approve_reject_denied_counterexample:
  "userCanActOnSelected (exampleUi exampleRow ITPMO) = Inr False \<and>
   storedField exampleStore (JStr ''D-1001'') ''status'' = JStr ''Under Review'' \<and>
   storedField exampleStore (JStr ''D-1001'') ''current_stage'' = JStr ''Screening'' \<and>
   approveOutcome (exampleUi exampleRow ITPMO) exampleStore (JStr ''D-1001'') =
     Inr (JStr ''Under Review'', JStr ''Assessment'', Some (ApprovedMoved ''Assessment'')) \<and>
   rejectOutcome (exampleUi exampleRow ITPMO) exampleStore (JStr ''D-1001'') =
     (JStr ''Rejected'', JStr ''Screening'', Some RejectedDone)"
proof -
  let ?u = "exampleUi exampleRow ITPMO"
  have n: "nextStageFrom (JStr ''Screening'') = Inr ''Assessment''"
    by (simp add: nextStageFrom_cases)
  have l: "\<not> isLastApprover (JStr ''Screening'')"
    by (simp add: isLastApprover_cases)
  have "approveOutcome ?u exampleStore (JStr ''D-1001'') =
     Inr (JStr ''Under Review'', JStr ''Assessment'', Some (ApprovedMoved ''Assessment''))"
    using approveOutcome_at [of ?u exampleRow exampleStore exampleRow "''Screening''" "''Assessment''"]
      example_selected [of exampleRow ITPMO] example_stored n l
    by (simp add: example_facts)
  moreover have "rejectOutcome ?u exampleStore (JStr ''D-1001'') =
     (JStr ''Rejected'', JStr ''Screening'', Some RejectedDone)"
    using rejectSelected_written [of ?u exampleRow exampleStore exampleRow
        "map_of (updatePayload (JStr ''D-1001'') exampleRow rejectPatch)"]
      rejectPatch_payload [of "JStr ''D-1001''" exampleRow]
      example_selected [of exampleRow ITPMO] example_stored
    by (simp add: example_facts rejectOutcome_def storedField_def nullish_or_def nullish_def)
  moreover have "storedField exampleStore (JStr ''D-1001'') ''status'' = JStr ''Under Review''"
    "storedField exampleStore (JStr ''D-1001'') ''current_stage'' = JStr ''Screening''"
    by (simp_all add: storedField_def exampleStore_def example_facts)
  ultimately show ?thesis using example_denied by simp
qed

section \<open>Transitions\<close>

text \<open>
  Claim C3. For a selected demand whose row the store holds: at the stage Authorization,
  \<open>approveSelected\<close> stores the status Approved and the stage Service Portfolio Entry; at
  each stage of the flow before Authorization (Intake, Screening, Assessment) it stores the
  status Under Review and the next stage of the flow. This holds whatever the status and
  the acting role are, so also for Under Review and DBR.
\<close>

theorem approveSelected_transitions:
  assumes "selectedDemand u = Some d" and "db (getProp d ''id'') = Some cur"
  shows "(selectedStage d = JStr ''Authorization'' \<longrightarrow>
           approveOutcome u db (getProp d ''id'') =
             Inr (JStr ''Approved'', JStr ''Service Portfolio Entry'', Some ApprovedFinal))
       \<and> (\<forall>j \<in> {0, 1, 2}. selectedStage d = JStr (stage (STAGE_FLOW ! j)) \<longrightarrow>
           approveOutcome u db (getProp d ''id'') =
             Inr (JStr ''Under Review'', JStr (stage (STAGE_FLOW ! Suc j)),
                  Some (ApprovedMoved (stage (STAGE_FLOW ! Suc j)))))"
proof -
  note at = approveOutcome_at [of u d db cur]
  have "selectedStage d = JStr ''Authorization'' \<longrightarrow>
           approveOutcome u db (getProp d ''id'') =
             Inr (JStr ''Approved'', JStr ''Service Portfolio Entry'', Some ApprovedFinal)"
    using at [of "''Authorization''" "''Service Portfolio Entry''"] assms
    by (simp add: nextStageFrom_cases isLastApprover_cases)
  moreover have "selectedStage d = JStr (stage (STAGE_FLOW ! 0)) \<longrightarrow>
           approveOutcome u db (getProp d ''id'') =
             Inr (JStr ''Under Review'', JStr (stage (STAGE_FLOW ! Suc 0)),
                  Some (ApprovedMoved (stage (STAGE_FLOW ! Suc 0))))"
    using at [of "''Intake''" "''Screening''"] assms
    by (simp add: nextStageFrom_cases isLastApprover_cases STAGE_FLOW_def)
  moreover have "selectedStage d = JStr (stage (STAGE_FLOW ! 1)) \<longrightarrow>
           approveOutcome u db (getProp d ''id'') =
             Inr (JStr ''Under Review'', JStr (stage (STAGE_FLOW ! Suc 1)),
                  Some (ApprovedMoved (stage (STAGE_FLOW ! Suc 1))))"
    using at [of "''Screening''" "''Assessment''"] assms
    by (simp add: nextStageFrom_cases isLastApprover_cases STAGE_FLOW_def)
  moreover have "selectedStage d = JStr (stage (STAGE_FLOW ! 2)) \<longrightarrow>
           approveOutcome u db (getProp d ''id'') =
             Inr (JStr ''Under Review'', JStr (stage (STAGE_FLOW ! Suc 2)),
                  Some (ApprovedMoved (stage (STAGE_FLOW ! Suc 2))))"
    using at [of "''Assessment''" "''Authorization''"] assms
    by (simp add: nextStageFrom_cases isLastApprover_cases STAGE_FLOW_def)
  ultimately show ?thesis by simp
qed

theorem approveSelected_transitions_witness:
  "userCanActOnSelected (exampleUi (exampleRow(''current_stage'' \<mapsto> JStr ''Authorization'')) DBR)
     = Inr True \<and>
   approveOutcome (exampleUi (exampleRow(''current_stage'' \<mapsto> JStr ''Authorization'')) DBR)
     exampleStore (JStr ''D-1001'') =
     Inr (JStr ''Approved'', JStr ''Service Portfolio Entry'', Some ApprovedFinal) \<and>
   approveOutcome (exampleUi exampleRow BUHead) exampleStore (JStr ''D-1001'') =
     Inr (JStr ''Under Review'', JStr ''Assessment'', Some (ApprovedMoved ''Assessment''))"
proof -
  let ?d = "exampleRow(''current_stage'' \<mapsto> JStr ''Authorization'')"
  have i: "getProp ?d ''id'' = JStr ''D-1001''"
    by (simp add: getProp_def exampleRow_def)
  have b: "exampleStore (getProp ?d ''id'') = Some exampleRow"
    by (simp add: i exampleStore_def)
  have c: "selectedStage ?d = JStr ''Authorization''"
    by (simp add: selectedStage_def getProp_def js_or_def falsy_def)
  have s: "getProp ?d ''status'' = JStr ''Under Review''"
    by (simp add: getProp_def exampleRow_def)
  have g: "userCanActOnSelected (exampleUi ?d DBR) = Inr True"
    by (simp add: userCanActOnSelected_def c s requiredRoleForStage_cases exampleUi_def)
  from approveSelected_transitions [of "exampleUi ?d DBR" ?d exampleStore exampleRow]
    example_selected [of ?d DBR] b c
  have f: "approveOutcome (exampleUi ?d DBR) exampleStore (JStr ''D-1001'') =
     Inr (JStr ''Approved'', JStr ''Service Portfolio Entry'', Some ApprovedFinal)"
    by (simp add: i)
  have "(1::nat) \<in> {0, 1, 2}" "selectedStage exampleRow = JStr (stage (STAGE_FLOW ! 1))"
    by (simp_all add: example_facts STAGE_FLOW_def)
  with approveSelected_transitions [of "exampleUi exampleRow BUHead" exampleRow exampleStore
      exampleRow] example_selected [of exampleRow BUHead] example_stored
  have "approveOutcome (exampleUi exampleRow BUHead) exampleStore (getProp exampleRow ''id'') =
     Inr (JStr ''Under Review'', JStr (stage (STAGE_FLOW ! Suc 1)),
          Some (ApprovedMoved (stage (STAGE_FLOW ! Suc 1))))"
    by blast
  then have "approveOutcome (exampleUi exampleRow BUHead) exampleStore (JStr ''D-1001'') =
     Inr (JStr ''Under Review'', JStr ''Assessment'', Some (ApprovedMoved ''Assessment''))"
    by (simp add: example_facts STAGE_FLOW_def)
  with g f show ?thesis by simp
qed

text \<open>
  Claim C4. For every stage key of the flow but the last one, the index of the stage that
  \<open>nextStageFrom\<close> gives is the index of the key plus one. For every input whatsoever,
  \<open>nextStageFrom\<close> returns a stage, and its index is not beyond the last entry of the flow.
\<close>

theorem nextStageFrom_advance_clamp:
  "(\<forall>k \<in> set (butlast (map stage STAGE_FLOW)).
      \<exists>n. nextStageFrom (JStr k) = Inr n \<and> stageIndex (JStr n) = stageIndex (JStr k) + 1)
   \<and> (\<forall>v. \<exists>n. nextStageFrom v = Inr n \<and> stageIndex (JStr n) \<le> int (length STAGE_FLOW) - 1)"
proof
  show "\<forall>k \<in> set (butlast (map stage STAGE_FLOW)).
      \<exists>n. nextStageFrom (JStr k) = Inr n \<and> stageIndex (JStr n) = stageIndex (JStr k) + 1"
    by (simp add: STAGE_FLOW_def nextStageFrom_cases stageIndex_cases)
next
  show "\<forall>v. \<exists>n. nextStageFrom v = Inr n \<and> stageIndex (JStr n) \<le> int (length STAGE_FLOW) - 1"
    by (simp add: nextStageFrom_cases stageIndex_cases STAGE_FLOW_def)
qed

theorem nextStageFrom_advance_clamp_witness:
  "''Screening'' \<in> set (butlast (map stage STAGE_FLOW)) \<and>
   nextStageFrom (JStr ''Screening'') = Inr ''Assessment'' \<and>
   stageIndex (JStr ''Assessment'') = stageIndex (JStr ''Screening'') + 1"
proof -
  have h: "''Screening'' \<in> set (butlast (map stage STAGE_FLOW))"
    by (simp add: STAGE_FLOW_def)
  from nextStageFrom_advance_clamp h
  obtain n where "nextStageFrom (JStr ''Screening'') = Inr n"
    and "stageIndex (JStr n) = stageIndex (JStr ''Screening'') + 1"
    by blast
  moreover have "nextStageFrom (JStr ''Screening'') = Inr ''Assessment''"
    by (simp add: nextStageFrom_cases)
  ultimately show ?thesis using h by simp
qed




section \<open>Resolving a stage key\<close>

text \<open>
  Claim C6, as the code has it. The two resolutions share the fallback to index 0 and
  nothing else. The stage table's resolution (\<open>currentIndex\<close> of \<open>buildWorkflow\<close>) ignores
  letter case and surrounding white space, and gives 0 for a key it does not recognise and
  for a missing key. The approval flow's resolution (\<open>stageIndex\<close>) matches exactly: each
  key of the flow, written as in the flow, has its own index, and every other string, null
  and undefined give 0.
\<close>

theorem stage_resolution_semantics:
  "((\<forall>c\<in>set a. isWhiteSpace c) \<and> (\<forall>c\<in>set b. isWhiteSpace c) \<and> toLowerCase s = toLowerCase t
      \<longrightarrow> currentIndex (Some (a @ s @ b)) = currentIndex (Some t))
   \<and> (normKey k \<notin> set (map (\<lambda>s. toLowerCase (key s)) WORKFLOW_STAGES) \<longrightarrow> currentIndex k = 0)
   \<and> currentIndex None = 0
   \<and> (\<forall>j < length STAGE_FLOW. stageIndex (JStr (stage (STAGE_FLOW ! j))) = int j)
   \<and> (s \<notin> set (map stage STAGE_FLOW) \<longrightarrow> stageIndex (JStr s) = 0)
   \<and> stageIndex JNull = 0 \<and> stageIndex JUndefined = 0"
proof -
  have "(\<forall>c\<in>set a. isWhiteSpace c) \<and> (\<forall>c\<in>set b. isWhiteSpace c) \<and> toLowerCase s = toLowerCase t
      \<longrightarrow> currentIndex (Some (a @ s @ b)) = currentIndex (Some t)"
    using normKey_padded [of a b s t] by (simp add: currentIndex_def)
  moreover have "normKey k \<notin> set (map (\<lambda>s. toLowerCase (key s)) WORKFLOW_STAGES)
      \<longrightarrow> currentIndex k = 0"
    using currentIndex_unknown [of k] by blast
  moreover have "\<forall>j < length STAGE_FLOW. stageIndex (JStr (stage (STAGE_FLOW ! j))) = int j"
    using stageIndex_exact by blast
  moreover have "s \<notin> set (map stage STAGE_FLOW) \<longrightarrow> stageIndex (JStr s) = 0"
    using stageIndex_unknown [of s] by blast
  moreover have "stageIndex JNull = 0 \<and> stageIndex JUndefined = 0"
    by (simp add: stageIndex_cases)
  ultimately show ?thesis
    using currentIndex_null by blast
qed

theorem stage_resolution_semantics_witness:
  "currentIndex (Some (''  '' @ ''SCREENING'' @ '' '')) = currentIndex (Some ''Screening'') \<and>
   currentIndex (Some ''Screening'') = 1 \<and>
   currentIndex (Some ''Backlog'') = 0 \<and>
   stageIndex (JStr (stage (STAGE_FLOW ! 1))) = 1 \<and>
   stageIndex (JStr ''SCREENING'') = 0"
proof -
  have w: "\<forall>c\<in>set ''  ''. isWhiteSpace c" "\<forall>c\<in>set '' ''. isWhiteSpace c"
    by code_simp+
  have l: "toLowerCase ''SCREENING'' = toLowerCase ''Screening''"
    by code_simp
  have n: "''SCREENING'' \<notin> set (map stage STAGE_FLOW)" "1 < length STAGE_FLOW"
    by (simp_all add: STAGE_FLOW_def)
  from stage_resolution_semantics [of "''  ''" "'' ''" "''SCREENING''" "''Screening''"
        "Some ''Backlog''"] w l backlog_unknown n
  show ?thesis
    by (simp add: currentIndex_samples)
qed

text \<open>
  The claim as first stated fails for \<open>stageIndex\<close>: the stage table resolves
  \<open>screening\<close> and a padded \<open>Screening\<close> like \<open>Screening\<close>, to 1, the approval flow
  resolves both to 0.
\<close>

theorem stage_resolution_counterexample:
  "stageIndex (JStr ''Screening'') = 1 \<and> stageIndex (JStr ''screening'') = 0 \<and>
   stageIndex (JStr '' Screening '') = 0 \<and>
   currentIndex (Some ''Screening'') = 1 \<and> currentIndex (Some ''screening'') = 1 \<and>
   currentIndex (Some '' Screening '') = 1"
  by (simp add: stageIndex_cases currentIndex_samples)

text \<open>
  Claim C7. A key that the stage table does not hold, that is, one that equals no key of
  the table once lower-cased and trimmed as the table's resolution does, resolves to index 0
  in both \<open>currentIndex\<close> and \<open>stageIndex\<close>; so do null, undefined and the empty string. For
  \<open>stageIndex\<close> the same holds for every string that is not literally a key of the table.
  Both functions are total and have no error result.
\<close>

theorem unknown_stage_resolves_to_first:
  "(normKey (Some k) \<notin> set (map (\<lambda>s. toLowerCase (key s)) WORKFLOW_STAGES) \<longrightarrow>
      currentIndex (Some k) = 0 \<and> stageIndex (JStr k) = 0)
   \<and> (k \<notin> set (map key WORKFLOW_STAGES) \<longrightarrow> stageIndex (JStr k) = 0)
   \<and> currentIndex None = 0 \<and> stageIndex JNull = 0 \<and> stageIndex JUndefined = 0
   \<and> currentIndex (Some []) = 0 \<and> stageIndex (JStr []) = 0"
proof -
  have sub: "set (map stage STAGE_FLOW) \<subseteq> set (map key WORKFLOW_STAGES)"
    by (simp add: STAGE_FLOW_def WORKFLOW_STAGES_def)
  have "normKey (Some k) \<notin> set (map (\<lambda>s. toLowerCase (key s)) WORKFLOW_STAGES) \<longrightarrow>
      currentIndex (Some k) = 0 \<and> stageIndex (JStr k) = 0"
    using currentIndex_unknown [of "Some k"] flow_keys_in_table [of k] stageIndex_unknown [of k]
    by blast
  moreover have "k \<notin> set (map key WORKFLOW_STAGES) \<longrightarrow> stageIndex (JStr k) = 0"
    using sub stageIndex_unknown [of k] by blast
  moreover have "stageIndex JNull = 0 \<and> stageIndex JUndefined = 0 \<and> stageIndex (JStr []) = 0"
    by (simp add: stageIndex_cases)
  ultimately show ?thesis
    using currentIndex_null currentIndex_samples(5) by blast
qed

theorem unknown_stage_resolves_to_first_witness:
  "normKey (Some ''Backlog'') \<notin> set (map (\<lambda>s. toLowerCase (key s)) WORKFLOW_STAGES) \<and>
   ''Backlog'' \<notin> set (map key WORKFLOW_STAGES) \<and>
   currentIndex (Some ''Backlog'') = 0 \<and> stageIndex (JStr ''Backlog'') = 0"
proof -
  have n: "''Backlog'' \<notin> set (map key WORKFLOW_STAGES)"
    by (simp add: WORKFLOW_STAGES_def)
  from unknown_stage_resolves_to_first [of "''Backlog''"] backlog_unknown n show ?thesis
    by simp
qed

text \<open>
  Claim C10. The keys of the stage table that the approval flow does not list are
  Evaluation, Business Case Development, Service Implementation/Monitoring and Closure.
  For each of them \<open>stageIndex\<close> is 0, \<open>requiredRoleForStage\<close> is Demand Requestor and
  \<open>nextStageFrom\<close> is Screening: the three answers given for Intake.
\<close>

theorem display_only_stages_resolve_to_intake:
  "set (map key WORKFLOW_STAGES) - set (map stage STAGE_FLOW) =
     {''Evaluation'', ''Business Case Development'', ''Service Implementation/Monitoring'',
      ''Closure''}
   \<and> (\<forall>k \<in> set (map key WORKFLOW_STAGES) - set (map stage STAGE_FLOW).
        stageIndex (JStr k) = 0 \<and>
        requiredRoleForStage (JStr k) = Inr (Some DemandRequestor) \<and>
        nextStageFrom (JStr k) = Inr ''Screening'' \<and>
        stageIndex (JStr k) = stageIndex (JStr ''Intake'') \<and>
        requiredRoleForStage (JStr k) = requiredRoleForStage (JStr ''Intake'') \<and>
        nextStageFrom (JStr k) = nextStageFrom (JStr ''Intake''))"
proof -
  have s: "set (map key WORKFLOW_STAGES) - set (map stage STAGE_FLOW) =
     {''Evaluation'', ''Business Case Development'', ''Service Implementation/Monitoring'',
      ''Closure''}"
    by (auto simp: WORKFLOW_STAGES_def STAGE_FLOW_def)
  show ?thesis
    unfolding s
    by (simp add: stageIndex_cases requiredRoleForStage_cases nextStageFrom_cases)
qed

theorem display_only_stages_resolve_to_intake_witness:
  "''Closure'' \<in> set (map key WORKFLOW_STAGES) - set (map stage STAGE_FLOW) \<and>
   stageIndex (JStr ''Closure'') = 0 \<and>
   requiredRoleForStage (JStr ''Closure'') = Inr (Some DemandRequestor) \<and>
   nextStageFrom (JStr ''Closure'') = Inr ''Screening''"
proof -
  have h: "''Closure'' \<in> set (map key WORKFLOW_STAGES) - set (map stage STAGE_FLOW)"
    by (simp add: WORKFLOW_STAGES_def STAGE_FLOW_def)
  with display_only_stages_resolve_to_intake show ?thesis
    by blast
qed

section \<open>The progress view\<close>

text \<open>
  Claim C8. For every input, known or not, \<open>buildWorkflow\<close> returns the nine stages of the
  table in the table's order. Exactly one entry is current, the one at the resolved index;
  the entries before it are completed and the entries from it on are not.
\<close>

theorem buildWorkflow_progress_view:
  "map id_w (buildWorkflow k) = [1, 2, 3, 4, 5, 6, 7, 8, 9]
   \<and> map id_w (buildWorkflow k) = map id_s WORKFLOW_STAGES
   \<and> map name_w (buildWorkflow k) = map name WORKFLOW_STAGES
   \<and> map description_w (buildWorkflow k) = map description WORKFLOW_STAGES
   \<and> length (filter current (buildWorkflow k)) = 1
   \<and> 0 \<le> currentIndex k \<and> currentIndex k < 9
   \<and> (\<forall>i < 9. completed (buildWorkflow k ! i) = (int i < currentIndex k) \<and>
                current (buildWorkflow k ! i) = (int i = currentIndex k))"
proof -
  have r: "0 \<le> currentIndex k \<and> currentIndex k < 9"
    by (rule currentIndex_range)
  have e: "enumerate 0 WORKFLOW_STAGES = zip [0, 1, 2, 3, 4, 5, 6, 7, 8] WORKFLOW_STAGES"
    by (simp add: WORKFLOW_STAGES_def enumerate_eq_zip upt_rec)
  have ids: "map id_w (buildWorkflow k) = map id_s WORKFLOW_STAGES"
    "map name_w (buildWorkflow k) = map name WORKFLOW_STAGES"
    "map description_w (buildWorkflow k) = map description WORKFLOW_STAGES"
    by (simp_all add: buildWorkflow_def e, simp_all add: WORKFLOW_STAGES_def)
  have nine: "map id_s WORKFLOW_STAGES = [1, 2, 3, 4, 5, 6, 7, 8, 9]"
    by (simp add: WORKFLOW_STAGES_def)
  have flags: "map (\<lambda>w. (completed w, current w)) (buildWorkflow k) =
      map (\<lambda>i. (i < currentIndex k, i = currentIndex k)) [0, 1, 2, 3, 4, 5, 6, 7, 8]"
    by (simp add: buildWorkflow_def e, simp add: WORKFLOW_STAGES_def)
  have cur: "map current (buildWorkflow k) =
      map (\<lambda>i. i = currentIndex k) [0, 1, 2, 3, 4, 5, 6, 7, 8]"
    using arg_cong [OF flags, of "map snd"] by (simp add: comp_def)
  have "length (filter current (buildWorkflow k)) =
      length (filter id (map current (buildWorkflow k)))"
    by (simp add: filter_map comp_def)
  also have "\<dots> = 1"
    using r unfolding cur by auto
  finally have one: "length (filter current (buildWorkflow k)) = 1" .
  have len: "length (buildWorkflow k) = 9"
    using arg_cong [OF cur, of length] by simp
  have nth: "completed (buildWorkflow k ! i) = (int i < currentIndex k) \<and>
             current (buildWorkflow k ! i) = (int i = currentIndex k)" if "i < 9" for i
  proof -
    have "(\<lambda>w. (completed w, current w)) (buildWorkflow k ! i) =
        map (\<lambda>w. (completed w, current w)) (buildWorkflow k) ! i"
      using that len by simp
    also have "\<dots> = (int i < currentIndex k, int i = currentIndex k)"
    proof -
      from that have "i = 0 \<or> i = 1 \<or> i = 2 \<or> i = 3 \<or> i = 4 \<or> i = 5 \<or> i = 6 \<or> i = 7 \<or> i = 8"
        by arith
      then show ?thesis
        unfolding flags by (elim disjE) simp_all
    qed
    finally show ?thesis by simp
  qed
  from ids nine one r nth show ?thesis by simp
qed

theorem buildWorkflow_progress_view_witness:
  "currentIndex (Some ''Assessment'') = 2 \<and>
   completed (buildWorkflow (Some ''Assessment'') ! 1) \<and>
   \<not> completed (buildWorkflow (Some ''Assessment'') ! 2) \<and>
   current (buildWorkflow (Some ''Assessment'') ! 2) \<and>
   \<not> current (buildWorkflow (Some ''Assessment'') ! 3)"
proof -
  have c: "currentIndex (Some ''Assessment'') = 2"
    by (rule currentIndex_samples)
  from buildWorkflow_progress_view [of "Some ''Assessment''"]
  have "\<forall>i < 9. completed (buildWorkflow (Some ''Assessment'') ! i) = (int i < 2) \<and>
                current (buildWorkflow (Some ''Assessment'') ! i) = (int i = 2)"
    by (simp add: c)
  then have "completed (buildWorkflow (Some ''Assessment'') ! 1) = (int 1 < 2)"
    "completed (buildWorkflow (Some ''Assessment'') ! 2) = (int 2 < 2)"
    "current (buildWorkflow (Some ''Assessment'') ! 2) = (int 2 = 2)"
    "current (buildWorkflow (Some ''Assessment'') ! 3) = (int 3 = 2)"
    by simp_all
  with c show ?thesis by simp
qed

section \<open>Merge, then write\<close>

text \<open>
  Claim C9, as the code has it. For a row that the store holds, \<open>updateDemand\<close> writes a
  payload in which each of the fields type, priority, status, description, requestor,
  department, the four business case texts, the three cost fields, roi and progress has the
  patch's value where the patch has the field and the stored value otherwise, with null
  written for a value that is null, undefined or missing. The title is merged the same way,
  with \<open>(Untitled)\<close> in place of null. The stage is the merged \<open>current_stage\<close>, or the
  merged \<open>currentStage\<close> where that is missing. The two dates are the merged values passed
  through \<open>toUtcMidnight\<close>. The id is the argument, and the creation date is always the
  stored one, whatever the patch says.
\<close>

theorem updateDemand_merge_then_write:
  assumes "db i = Some cur"
  shows "\<exists>p. updateDemand db i patch = Inr (db(i \<mapsto> p), p) \<and>
     (\<forall>k \<in> set [''type'', ''priority'', ''status'', ''description'', ''requestor'',
         ''department'', ''business_justification'', ''expected_benefits'', ''risk_assessment'',
         ''success_criteria'', ''estimated_cost'', ''budget_source'', ''cost_category'', ''roi'',
         ''progress''].
        p k = Some (case patch k of
                      Some v \<Rightarrow> if nullish v then JNull else v
                    | None \<Rightarrow> if nullish (getProp cur k) then JNull else getProp cur k)) \<and>
     p ''title'' = Some (case patch ''title'' of
                      Some v \<Rightarrow> if nullish v then JStr ''(Untitled)'' else v
                    | None \<Rightarrow> if nullish (getProp cur ''title'') then JStr ''(Untitled)''
                              else getProp cur ''title'') \<and>
     p ''current_stage'' =
       Some (nullish_or (nullish_or (getProp (cur ++ patch) ''current_stage'')
                                    (getProp (cur ++ patch) ''currentStage'')) JNull) \<and>
     p ''expected_start_date'' =
       Some (nullish_or (toUtcMidnight (nullish_or (getProp (cur ++ patch) ''expected_start_date'')
          (getProp (cur ++ patch) ''expectedStartDate''))) JNull) \<and>
     p ''expected_delivery'' =
       Some (nullish_or (toUtcMidnight (nullish_or (getProp (cur ++ patch) ''expected_delivery'')
          (getProp (cur ++ patch) ''expectedDelivery''))) JNull) \<and>
     p ''id'' = Some i \<and>
     p ''created_date'' =
       Some (nullish_or (nullish_or (getProp cur ''created_date'') (getProp cur ''createdDate''))
          JNull)"
proof -
  let ?p = "map_of (updatePayload i cur patch)"
  have "updateDemand db i patch = Inr (db(i \<mapsto> ?p), ?p)"
    using assms by (rule updateDemand_stored)
  moreover have "\<forall>k \<in> set [''type'', ''priority'', ''status'', ''description'', ''requestor'',
         ''department'', ''business_justification'', ''expected_benefits'', ''risk_assessment'',
         ''success_criteria'', ''estimated_cost'', ''budget_source'', ''cost_category'', ''roi'',
         ''progress''].
        ?p k = Some (case patch k of
                      Some v \<Rightarrow> if nullish v then JNull else v
                    | None \<Rightarrow> if nullish (getProp cur k) then JNull else getProp cur k)"
  proof
    fix k
    assume "k \<in> set [''type'', ''priority'', ''status'', ''description'', ''requestor'',
         ''department'', ''business_justification'', ''expected_benefits'', ''risk_assessment'',
         ''success_criteria'', ''estimated_cost'', ''budget_source'', ''cost_category'', ''roi'',
         ''progress'']"
    then have "?p k = Some (nullish_or (getProp (cur ++ patch) k) JNull)"
      by (rule payload_plain)
    then show "?p k = Some (case patch k of
                      Some v \<Rightarrow> if nullish v then JNull else v
                    | None \<Rightarrow> if nullish (getProp cur k) then JNull else getProp cur k)"
      by (simp only: merged_or_null)
  qed
  moreover have "?p ''title'' = Some (case patch ''title'' of
                      Some v \<Rightarrow> if nullish v then JStr ''(Untitled)'' else v
                    | None \<Rightarrow> if nullish (getProp cur ''title'') then JStr ''(Untitled)''
                              else getProp cur ''title'')"
    by (simp only: payload_others merged_or_null)
  ultimately show ?thesis
    using payload_others [of i cur patch] payload_current_stage [of i cur patch] by blast
qed

theorem updateDemand_merge_then_write_witness:
  "\<exists>p. updateDemand exampleStore (JStr ''D-1001'') rejectPatch =
          Inr (exampleStore(JStr ''D-1001'' \<mapsto> p), p) \<and>
       p ''status'' = Some (JStr ''Rejected'') \<and>
       p ''progress'' = Some (JNum 40) \<and>
       p ''description'' = Some JNull \<and>
       p ''title'' = Some (JStr ''New CRM'')"
proof -
  have s: "exampleStore (JStr ''D-1001'') = Some exampleRow"
    by (simp add: exampleStore_def)
  have v: "rejectPatch ''status'' = Some (JStr ''Rejected'')" "rejectPatch ''progress'' = None"
    "rejectPatch ''description'' = None" "rejectPatch ''title'' = None"
    "getProp exampleRow ''progress'' = JNum 40" "getProp exampleRow ''description'' = JUndefined"
    "getProp exampleRow ''title'' = JStr ''New CRM''"
    by (simp_all add: rejectPatch_def getProp_def exampleRow_def)
  from updateDemand_merge_then_write [of exampleStore "JStr ''D-1001''" exampleRow rejectPatch] s
  obtain p where p: "updateDemand exampleStore (JStr ''D-1001'') rejectPatch =
          Inr (exampleStore(JStr ''D-1001'' \<mapsto> p), p)"
    and k: "\<forall>k \<in> set [''type'', ''priority'', ''status'', ''description'', ''requestor'',
         ''department'', ''business_justification'', ''expected_benefits'', ''risk_assessment'',
         ''success_criteria'', ''estimated_cost'', ''budget_source'', ''cost_category'', ''roi'',
         ''progress''].
        p k = Some (case rejectPatch k of
                      Some v \<Rightarrow> if nullish v then JNull else v
                    | None \<Rightarrow> if nullish (getProp exampleRow k) then JNull
                              else getProp exampleRow k)"
    and t: "p ''title'' = Some (case rejectPatch ''title'' of
                      Some v \<Rightarrow> if nullish v then JStr ''(Untitled)'' else v
                    | None \<Rightarrow> if nullish (getProp exampleRow ''title'') then JStr ''(Untitled)''
                              else getProp exampleRow ''title'')"
    by blast
  from k have "p ''status'' = Some (JStr ''Rejected'')" "p ''progress'' = Some (JNum 40)"
    "p ''description'' = Some JNull"
    by (simp_all add: v nullish_def)
  moreover from t have "p ''title'' = Some (JStr ''New CRM'')"
    by (simp add: v nullish_def)
  ultimately show ?thesis using p by blast
qed

text \<open>
  The claim as first stated fails in two ways. A creation date in the patch is not
  written: the stored one is. And a stored date-only delivery date that the patch does not
  touch is written with a time of day added.
\<close>

theorem updateDemand_patch_wins_counterexample:
  "[''created_date'' \<mapsto> JStr ''2030-12-31''] ''created_date'' = Some (JStr ''2030-12-31'') \<and>
   map_of (updatePayload (JStr ''D-1001'') exampleRow [''created_date'' \<mapsto> JStr ''2030-12-31''])
     ''created_date'' = Some (JStr ''2024-01-01'') \<and>
   rejectPatch ''expected_delivery'' = None \<and>
   exampleRow ''expected_delivery'' = Some (JStr ''2025-03-01'') \<and>
   map_of (updatePayload (JStr ''D-1001'') exampleRow rejectPatch) ''expected_delivery'' =
     Some (JStr ''2025-03-01T00:00:00Z'')"
proof -
  have d: "isDateOnly ''2025-03-01''"
    by code_simp
  have "getProp exampleRow ''created_date'' = JStr ''2024-01-01''"
    "getProp (exampleRow ++ rejectPatch) ''expected_delivery'' = JStr ''2025-03-01''"
    by (simp_all add: getProp_def exampleRow_def rejectPatch_def)
  then show ?thesis
    using d
    by (simp add: payload_others nullish_or_def nullish_def toUtcMidnight_def falsy_def,
        simp add: rejectPatch_def exampleRow_def)
qed

end
